theory Spec2Isabelle
  imports Main "HOL-Library.Word"
begin

section \<open>The EnvironmentalVoting contract\<close>

text \<open>
  A shallow embedding of \<^verbatim>\<open>examples/environmental-voting/contracts/EnvironmentalVoting.sol\<close>.
  Solidity value types are machine words: \<^verbatim>\<open>uint8\<close>, \<^verbatim>\<open>uint32\<close>, \<^verbatim>\<open>uint256\<close> and
  \<^verbatim>\<open>address\<close> (160 bits). A \<^verbatim>\<open>mapping\<close> is a total function whose default is the
  zero value of the value type, \<^verbatim>\<open>bytes\<close> is a list of bytes, \<^verbatim>\<open>string\<close> a list of
  characters. Every external function takes the contract storage, \<^verbatim>\<open>msg.sender\<close> and
  \<^verbatim>\<open>block.timestamp\<close>, and returns either the error of the \<^verbatim>\<open>require\<close> that
  failed or the new storage.
\<close>

type_synonym uint8 = "8 word"
type_synonym uint32 = "32 word"
type_synonym uint256 = "256 word"
type_synonym address = "160 word"
type_synonym bytes = "8 word list"

subsection \<open>The FHE library boundary\<close>

text \<open>
  Modelled from the spec: the library \<^verbatim>\<open>@fhevm/solidity/lib/FHE.sol\<close> is an external
  dependency and its code is not in the repository. The spec's glossary gives its contract:
  a ciphertext is an opaque representation of a plaintext, and homomorphic addition yields a
  ciphertext of the sum of the plaintexts. A ciphertext is therefore modelled as a wrapper
  around the plaintext it encrypts; the contract code never opens the wrapper, only the
  theorems about tallies do. The zero handle of a fresh storage slot stands for the
  plaintext 0. Addition on \<^verbatim>\<open>euint32\<close> wraps modulo \<open>2 ^ 32\<close>.
  \<^verbatim>\<open>FHE.allowThis\<close> and \<^verbatim>\<open>FHE.allow\<close> only write to the access-control list held by
  the external ACL contract; they change nothing in this contract's storage.
\<close>

datatype euint8 = Euint8 (plain8: uint8)
datatype euint32 = Euint32 (plain32: uint32)

definition FHE_asEuint8 :: "uint8 \<Rightarrow> euint8" where
  "FHE_asEuint8 v = Euint8 v"

definition FHE_asEuint32 :: "uint32 \<Rightarrow> euint32" where
  "FHE_asEuint32 v = Euint32 v"

definition FHE_add :: "euint32 \<Rightarrow> euint32 \<Rightarrow> euint32" where
  "FHE_add a b = Euint32 (plain32 a + plain32 b)"

text \<open>
  Modelled from the spec: \<^verbatim>\<open>FHE.requestDecryption\<close> hands a batch of ciphertexts to
  the decryption oracle and returns a request id. The library keeps the batches it was asked
  to decrypt; the request id is the position of the batch in that log. The verdict of
  \<^verbatim>\<open>FHE.checkSignatures\<close> is a parameter of the model: any function of the log, the
  request id, the cleartexts and the proof.
\<close>

type_synonym request_log = "euint32 list list"
type_synonym verifier = "request_log \<Rightarrow> uint256 \<Rightarrow> bytes \<Rightarrow> bytes \<Rightarrow> bool"

definition FHE_requestDecryption :: "request_log \<Rightarrow> euint32 list \<Rightarrow> request_log" where
  "FHE_requestDecryption log cts = log @ [cts]"

subsection \<open>Storage\<close>

record Proposal =
  title :: string
  description :: string
  startTime :: uint256
  endTime :: uint256
  active :: bool
  resultsRevealed :: bool
  yesVotes :: euint32
  noVotes :: euint32
  totalVoters :: uint32
  voters :: "address list"

record Vote =
  encryptedVote :: euint8
  hasVoted :: bool
  timestamp :: uint256

datatype event =
    ProposalCreated uint32 string uint256 uint256
  | VoteSubmitted address uint32
  | ResultsRevealed uint32 uint32 uint32
  | ProposalEnded uint32

record contract =
  admin :: address
  currentProposalId :: uint32
  proposals :: "uint32 \<Rightarrow> Proposal"
  votes :: "uint32 \<Rightarrow> address \<Rightarrow> Vote"
  events :: "event list"
  decryptionRequests :: request_log

text \<open>The zero values a mapping returns for a key that was never written.\<close>

definition zero_Proposal :: Proposal where
  "zero_Proposal = \<lparr>title = [], description = [], startTime = 0, endTime = 0,
     active = False, resultsRevealed = False, yesVotes = Euint32 0, noVotes = Euint32 0,
     totalVoters = 0, voters = []\<rparr>"

definition zero_Vote :: Vote where
  "zero_Vote = \<lparr>encryptedVote = Euint8 0, hasVoted = False, timestamp = 0\<rparr>"

subsection \<open>Errors\<close>

text \<open>
  One constructor for each \<^verbatim>\<open>require\<close> of the contract, for the arithmetic panic of
  checked \<^verbatim>\<open>++\<close> and \<^verbatim>\<open>+\<close>, for a failed \<^verbatim>\<open>FHE.checkSignatures\<close> and for
  \<^verbatim>\<open>abi.decode\<close> on malformed data. \<open>revert_message\<close> gives the message of the
  \<^verbatim>\<open>require\<close>; the last three errors are raised by the runtime and the library and
  carry no message of the contract.
\<close>

datatype error =
    Unauthorized
  | ProposalNotFound
  | ProposalNotActive
  | VotingNotStarted
  | VotingWindowClosed
  | VotingStillActive
  | EmptyTitle
  | ZeroDuration
  | InvalidVote
  | AlreadyVoted
  | AlreadyRevealed
  | AlreadyEnded
  | ZeroAdmin
  | ArithmeticPanic
  | InvalidSignatures
  | DecodeError

fun revert_message :: "error \<Rightarrow> string" where
  "revert_message Unauthorized = ''Only admin can perform this action''"
| "revert_message ProposalNotFound = ''Proposal does not exist''"
| "revert_message ProposalNotActive = ''Proposal is not active''"
| "revert_message VotingNotStarted = ''Voting has not started''"
| "revert_message VotingWindowClosed = ''Voting has ended''"
| "revert_message VotingStillActive = ''Voting is still active''"
| "revert_message EmptyTitle = ''Title cannot be empty''"
| "revert_message ZeroDuration = ''Voting duration must be positive''"
| "revert_message InvalidVote = ''Vote must be 0 (no) or 1 (yes)''"
| "revert_message AlreadyVoted = ''Already voted on this proposal''"
| "revert_message AlreadyRevealed = ''Results already revealed''"
| "revert_message AlreadyEnded = ''Proposal already ended''"
| "revert_message ZeroAdmin = ''New admin cannot be zero address''"
| "revert_message ArithmeticPanic = []"
| "revert_message InvalidSignatures = []"
| "revert_message DecodeError = []"

text \<open>Checked addition of Solidity 0.8: overflow reverts.\<close>

definition checked_add :: "'a::len word \<Rightarrow> 'a word \<Rightarrow> 'a word option" where
  "checked_add a b = (if unat a + unat b < 2 ^ LENGTH('a) then Some (a + b) else None)"

subsection \<open>Modifiers\<close>

text \<open>
  Lines 39 to 59 of the contract. A modifier returns the error it raises, or \<open>None\<close>
  when the function body may run; a function applies its modifiers in the order in which
  its header lists them.
\<close>

definition onlyAdmin :: "contract \<Rightarrow> address \<Rightarrow> error option" where
  "onlyAdmin s sender = (if sender = admin s then None else Some Unauthorized)"

definition proposalExists :: "contract \<Rightarrow> uint32 \<Rightarrow> error option" where
  "proposalExists s pid =
     (if 0 < pid \<and> pid \<le> currentProposalId s then None else Some ProposalNotFound)"

definition proposalActive :: "contract \<Rightarrow> uint256 \<Rightarrow> uint32 \<Rightarrow> error option" where
  "proposalActive s now pid =
     (if \<not> active (proposals s pid) then Some ProposalNotActive
      else if \<not> startTime (proposals s pid) \<le> now then Some VotingNotStarted
      else if \<not> now \<le> endTime (proposals s pid) then Some VotingWindowClosed
      else None)"

definition proposalEnded :: "contract \<Rightarrow> uint256 \<Rightarrow> uint32 \<Rightarrow> error option" where
  "proposalEnded s now pid =
     (if endTime (proposals s pid) < now then None else Some VotingStillActive)"

subsection \<open>Functions\<close>

text \<open>
  The constructor (lines 61 to 64), \<^verbatim>\<open>createProposal\<close> (66 to 101), \<^verbatim>\<open>submitVote\<close>
  (103 to 136), \<^verbatim>\<open>revealResults\<close> (138 to 154), \<^verbatim>\<open>processResults\<close> (156 to 175),
  \<^verbatim>\<open>getProposalInfo\<close> (177 to 199), \<^verbatim>\<open>isVotingActive\<close> (216 to 224),
  \<^verbatim>\<open>endProposal\<close> (248 to 255) and
  \<^verbatim>\<open>transferAdmin\<close> (257 to 260). The increments \<^verbatim>\<open>currentProposalId++\<close> and
  \<^verbatim>\<open>totalVoters++\<close> and the sum \<^verbatim>\<open>startTime + _votingDuration\<close> are checked. A revert
  undoes every write of the call, so a function that fails returns only its error.
\<close>

definition constructor :: "address \<Rightarrow> contract" where
  "constructor sender = \<lparr>admin = sender, currentProposalId = 0,
     proposals = (\<lambda>_. zero_Proposal), votes = (\<lambda>_ _. zero_Vote),
     events = [], decryptionRequests = []\<rparr>"

definition createProposal ::
  "contract \<Rightarrow> address \<Rightarrow> uint256 \<Rightarrow> string \<Rightarrow> string \<Rightarrow> uint256 \<Rightarrow> error + contract" where
  "createProposal s sender now ttl descr votingDuration =
     (case onlyAdmin s sender of Some e \<Rightarrow> Inl e | None \<Rightarrow>
      if ttl = [] then Inl EmptyTitle
      else if \<not> 0 < votingDuration then Inl ZeroDuration
      else case checked_add (currentProposalId s) 1 of None \<Rightarrow> Inl ArithmeticPanic | Some pid \<Rightarrow>
        (case checked_add now votingDuration of None \<Rightarrow> Inl ArithmeticPanic | Some finish \<Rightarrow>
           Inr (s\<lparr>currentProposalId := pid,
                  proposals := (proposals s)(pid :=
                    \<lparr>title = ttl, description = descr, startTime = now, endTime = finish,
                     active = True, resultsRevealed = False,
                     yesVotes = FHE_asEuint32 0, noVotes = FHE_asEuint32 0,
                     totalVoters = 0, voters = []\<rparr>),
                  events := events s @ [ProposalCreated pid ttl now finish]\<rparr>)))"

definition submitVote ::
  "contract \<Rightarrow> address \<Rightarrow> uint256 \<Rightarrow> uint32 \<Rightarrow> uint8 \<Rightarrow> error + contract" where
  "submitVote s sender now pid vote =
     (case proposalExists s pid of Some e \<Rightarrow> Inl e | None \<Rightarrow>
      case proposalActive s now pid of Some e \<Rightarrow> Inl e | None \<Rightarrow>
      if \<not> (vote = 0 \<or> vote = 1) then Inl InvalidVote
      else if hasVoted (votes s pid sender) then Inl AlreadyVoted
      else let p = proposals s pid in
        case checked_add (totalVoters p) 1 of None \<Rightarrow> Inl ArithmeticPanic | Some n \<Rightarrow>
          let p1 = p\<lparr>voters := voters p @ [sender], totalVoters := n\<rparr>;
              p2 = (if vote = 1
                    then p1\<lparr>yesVotes := FHE_add (yesVotes p1) (FHE_asEuint32 1)\<rparr>
                    else p1\<lparr>noVotes := FHE_add (noVotes p1) (FHE_asEuint32 1)\<rparr>)
          in Inr (s\<lparr>votes := (votes s)(pid := (votes s pid)(sender :=
                      \<lparr>encryptedVote = FHE_asEuint8 vote, hasVoted = True, timestamp = now\<rparr>)),
                    proposals := (proposals s)(pid := p2),
                    events := events s @ [VoteSubmitted sender pid]\<rparr>))"

definition revealResults ::
  "contract \<Rightarrow> address \<Rightarrow> uint256 \<Rightarrow> uint32 \<Rightarrow> error + contract" where
  "revealResults s sender now pid =
     (case proposalExists s pid of Some e \<Rightarrow> Inl e | None \<Rightarrow>
      case proposalEnded s now pid of Some e \<Rightarrow> Inl e | None \<Rightarrow>
      case onlyAdmin s sender of Some e \<Rightarrow> Inl e | None \<Rightarrow>
      if resultsRevealed (proposals s pid) then Inl AlreadyRevealed
      else let p = proposals s pid in
        Inr (s\<lparr>decryptionRequests :=
                 FHE_requestDecryption (decryptionRequests s) [yesVotes p, noVotes p]\<rparr>))"

text \<open>
  \<^verbatim>\<open>abi.decode(cleartexts, (uint32, uint32))\<close>: two 32-byte big-endian words; the
  decoder reverts on fewer than 64 bytes and on a word that does not fit \<^verbatim>\<open>uint32\<close>.
\<close>

definition be_uint :: "bytes \<Rightarrow> nat" where
  "be_uint bs = foldl (\<lambda>acc b. acc * 256 + unat b) 0 bs"

definition abi_decode_uint32_pair :: "bytes \<Rightarrow> (uint32 \<times> uint32) option" where
  "abi_decode_uint32_pair bs =
     (if length bs < 64 then None
      else let a = be_uint (take 32 bs); b = be_uint (take 32 (drop 32 bs))
           in if a < 2 ^ 32 \<and> b < 2 ^ 32 then Some (of_nat a, of_nat b) else None)"

definition processResults ::
  "verifier \<Rightarrow> contract \<Rightarrow> address \<Rightarrow> uint256 \<Rightarrow> bytes \<Rightarrow> bytes \<Rightarrow> error + contract" where
  "processResults chk s sender requestId cleartexts decryptionProof =
     (if \<not> chk (decryptionRequests s) requestId cleartexts decryptionProof
      then Inl InvalidSignatures
      else case abi_decode_uint32_pair cleartexts of None \<Rightarrow> Inl DecodeError
        | Some (yes, no) \<Rightarrow>
          let proposalId = currentProposalId s in
            Inr (s\<lparr>proposals := (proposals s)(proposalId :=
                      (proposals s proposalId)\<lparr>resultsRevealed := True, active := False\<rparr>),
                   events := events s @
                      [ResultsRevealed proposalId yes no, ProposalEnded proposalId]\<rparr>))"

definition getProposalInfo ::
  "contract \<Rightarrow> uint32 \<Rightarrow>
     error + (string \<times> string \<times> uint256 \<times> uint256 \<times> bool \<times> bool \<times> uint32)" where
  "getProposalInfo s pid =
     (case proposalExists s pid of Some e \<Rightarrow> Inl e | None \<Rightarrow>
      let p = proposals s pid in
        Inr (title p, description p, startTime p, endTime p, active p,
             resultsRevealed p, totalVoters p))"

definition isVotingActive :: "contract \<Rightarrow> uint256 \<Rightarrow> uint32 \<Rightarrow> error + bool" where
  "isVotingActive s now pid =
     (case proposalExists s pid of Some e \<Rightarrow> Inl e | None \<Rightarrow>
      let p = proposals s pid in
        Inr (active p \<and> startTime p \<le> now \<and> now \<le> endTime p))"

definition endProposal :: "contract \<Rightarrow> address \<Rightarrow> uint32 \<Rightarrow> error + contract" where
  "endProposal s sender pid =
     (case proposalExists s pid of Some e \<Rightarrow> Inl e | None \<Rightarrow>
      case onlyAdmin s sender of Some e \<Rightarrow> Inl e | None \<Rightarrow>
      if \<not> active (proposals s pid) then Inl AlreadyEnded
      else Inr (s\<lparr>proposals := (proposals s)(pid := (proposals s pid)\<lparr>active := False\<rparr>),
                  events := events s @ [ProposalEnded pid]\<rparr>))"

definition transferAdmin :: "contract \<Rightarrow> address \<Rightarrow> address \<Rightarrow> error + contract" where
  "transferAdmin s sender newAdmin =
     (case onlyAdmin s sender of Some e \<Rightarrow> Inl e | None \<Rightarrow>
      if newAdmin = 0 then Inl ZeroAdmin
      else Inr (s\<lparr>admin := newAdmin\<rparr>))"

subsection \<open>Transactions\<close>

text \<open>
  A transaction is a call of one external function by a sender at a block timestamp. A call
  that reverts leaves the storage as it was; \<open>run\<close> executes a list of transactions in
  order, and a state is reachable when successful calls lead to it from a deployment.
\<close>

datatype call =
    CreateProposal string string uint256
  | SubmitVote uint32 uint8
  | RevealResults uint32
  | ProcessResults uint256 bytes bytes
  | EndProposal uint32
  | TransferAdmin address

fun exec :: "verifier \<Rightarrow> contract \<Rightarrow> address \<Rightarrow> uint256 \<Rightarrow> call \<Rightarrow> error + contract" where
  "exec chk s sender now (CreateProposal ttl descr d) = createProposal s sender now ttl descr d"
| "exec chk s sender now (SubmitVote pid v) = submitVote s sender now pid v"
| "exec chk s sender now (RevealResults pid) = revealResults s sender now pid"
| "exec chk s sender now (ProcessResults rid ct prf) = processResults chk s sender rid ct prf"
| "exec chk s sender now (EndProposal pid) = endProposal s sender pid"
| "exec chk s sender now (TransferAdmin a) = transferAdmin s sender a"

definition transact :: "verifier \<Rightarrow> contract \<Rightarrow> address \<times> uint256 \<times> call \<Rightarrow> contract" where
  "transact chk s tx = (case tx of (sender, now, c) \<Rightarrow>
     (case exec chk s sender now c of Inl e \<Rightarrow> s | Inr s' \<Rightarrow> s'))"

definition run :: "verifier \<Rightarrow> contract \<Rightarrow> (address \<times> uint256 \<times> call) list \<Rightarrow> contract" where
  "run chk s txs = foldl (transact chk) s txs"

inductive reachable :: "verifier \<Rightarrow> contract \<Rightarrow> bool" for chk :: verifier where
  deployed: "reachable chk (constructor deployer)"
| called: "reachable chk s \<Longrightarrow> exec chk s sender now c = Inr s' \<Longrightarrow> reachable chk s'"

subsection \<open>Scenarios\<close>

text \<open>
  Concrete runs used to exercise the theorems below. Address 1 deploys the contract and is
  the admin; addresses 2, 3 and 4 are voters; address 9 relays the oracle's callback.
  \<open>accept_issued\<close> is a verifier that accepts a callback exactly when its request id was
  issued by \<^verbatim>\<open>FHE.requestDecryption\<close>. \<open>small_cleartexts y n\<close> is the ABI encoding of
  two \<^verbatim>\<open>uint32\<close> values below 256.
\<close>

definition accept_issued :: verifier where
  "accept_issued log rid ct pf = (unat rid < length log)"

definition small_cleartexts :: "uint8 \<Rightarrow> uint8 \<Rightarrow> bytes" where
  "small_cleartexts y n = replicate 31 0 @ [y] @ replicate 31 0 @ [n]"

definition one_proposal :: contract where
  "one_proposal = run accept_issued (constructor 1)
     [(1, 100, CreateProposal ''Solar'' ''Install panels'' 10)]"

definition one_vote :: contract where
  "one_vote = run accept_issued one_proposal [(2, 101, SubmitVote 1 1)]"

definition awaiting_reveal :: contract where
  "awaiting_reveal = run accept_issued one_vote [(1, 111, RevealResults 1)]"

definition reveal_then_new :: contract where
  "reveal_then_new = run accept_issued awaiting_reveal
     [(1, 112, CreateProposal ''Wind'' ''Build turbines'' 10)]"

definition revealed_one :: contract where
  "revealed_one = run accept_issued awaiting_reveal
     [(9, 112, ProcessResults 0 (small_cleartexts 1 0) [])]"

definition revealed_other :: contract where
  "revealed_other = run accept_issued awaiting_reveal
     [(9, 112, ProcessResults 0 (small_cleartexts 0 1) [])]"

definition second_request :: contract where
  "second_request = run accept_issued awaiting_reveal [(1, 112, RevealResults 1)]"

definition misrouted :: contract where
  "misrouted = run accept_issued reveal_then_new
     [(9, 113, ProcessResults 0 (small_cleartexts 1 0) [])]"

definition one_no_vote :: contract where
  "one_no_vote = run accept_issued one_proposal [(2, 101, SubmitVote 1 0)]"

definition ended_early :: contract where
  "ended_early = run accept_issued one_vote [(1, 105, EndProposal 1)]"

definition ended_after_deadline :: contract where
  "ended_after_deadline = run accept_issued one_vote [(1, 111, EndProposal 1)]"

definition three_votes_ended :: contract where
  "three_votes_ended = run accept_issued one_vote
     [(3, 102, SubmitVote 1 1), (4, 103, SubmitVote 1 1), (1, 111, RevealResults 1)]"

definition mismatch_revealed :: contract where
  "mismatch_revealed = run accept_issued three_votes_ended
     [(9, 112, ProcessResults 0 (small_cleartexts 3 1) [])]"

section \<open>Properties\<close>

subsection \<open>What a successful call does\<close>

lemma checked_add_Some: "checked_add a b = Some c \<Longrightarrow> c = a + b \<and> unat c = unat a + unat b"
  by (auto simp: checked_add_def unat_add_lem split: if_splits)

lemma checked_add_one_less: "checked_add a 1 = Some c \<Longrightarrow> a < c"
  by (auto dest!: checked_add_Some simp: word_less_nat_alt)

lemma createProposal_Inr:
  assumes "createProposal s sender now ttl descr d = Inr s'"
  shows "sender = admin s \<and> ttl \<noteq> [] \<and> 0 < d \<and>
         checked_add (currentProposalId s) 1 = Some (currentProposalId s') \<and>
         (\<exists>finish. checked_add now d = Some finish \<and>
           s' = s\<lparr>currentProposalId := currentProposalId s + 1,
                  proposals := (proposals s)(currentProposalId s + 1 :=
                    \<lparr>title = ttl, description = descr, startTime = now, endTime = finish,
                     active = True, resultsRevealed = False,
                     yesVotes = Euint32 0, noVotes = Euint32 0,
                     totalVoters = 0, voters = []\<rparr>),
                  events := events s @ [ProposalCreated (currentProposalId s + 1) ttl now finish]\<rparr>)"
  using assms
  by (auto simp: createProposal_def onlyAdmin_def FHE_asEuint32_def
      split: option.splits if_splits dest: checked_add_Some)

lemma submitVote_Inr:
  assumes "submitVote s sender now pid v = Inr s'"
  shows "0 < pid \<and> pid \<le> currentProposalId s \<and> active (proposals s pid) \<and>
         startTime (proposals s pid) \<le> now \<and> now \<le> endTime (proposals s pid) \<and>
         (v = 0 \<or> v = 1) \<and> \<not> hasVoted (votes s pid sender) \<and>
         unat (totalVoters (proposals s pid)) + 1 < 2 ^ 32 \<and>
         s' = s\<lparr>votes := (votes s)(pid := (votes s pid)(sender :=
                      \<lparr>encryptedVote = Euint8 v, hasVoted = True, timestamp = now\<rparr>)),
                 proposals := (proposals s)(pid := (proposals s pid)
                     \<lparr>voters := voters (proposals s pid) @ [sender],
                      totalVoters := totalVoters (proposals s pid) + 1,
                      yesVotes := (if v = 1 then Euint32 (plain32 (yesVotes (proposals s pid)) + 1)
                                   else yesVotes (proposals s pid)),
                      noVotes := (if v = 1 then noVotes (proposals s pid)
                                  else Euint32 (plain32 (noVotes (proposals s pid)) + 1))\<rparr>),
                 events := events s @ [VoteSubmitted sender pid]\<rparr>"
  using assms
  by (auto simp: submitVote_def proposalExists_def proposalActive_def FHE_asEuint32_def
      FHE_asEuint8_def FHE_add_def Let_def checked_add_def
      split: option.splits if_splits)

lemma revealResults_Inr:
  assumes "revealResults s sender now pid = Inr s'"
  shows "0 < pid \<and> pid \<le> currentProposalId s \<and> endTime (proposals s pid) < now \<and>
         sender = admin s \<and> \<not> resultsRevealed (proposals s pid) \<and>
         s' = s\<lparr>decryptionRequests := decryptionRequests s @
                  [[yesVotes (proposals s pid), noVotes (proposals s pid)]]\<rparr>"
  using assms
  by (auto simp: revealResults_def proposalExists_def proposalEnded_def onlyAdmin_def
      FHE_requestDecryption_def Let_def split: option.splits if_splits)

lemma processResults_Inr:
  assumes "processResults chk s sender rid ct pf = Inr s'"
  shows "chk (decryptionRequests s) rid ct pf \<and>
         (\<exists>y n. abi_decode_uint32_pair ct = Some (y, n) \<and>
           s' = s\<lparr>proposals := (proposals s)(currentProposalId s :=
                      (proposals s (currentProposalId s))\<lparr>resultsRevealed := True, active := False\<rparr>),
                   events := events s @ [ResultsRevealed (currentProposalId s) y n,
                                         ProposalEnded (currentProposalId s)]\<rparr>)"
  using assms
  by (auto simp: processResults_def Let_def split: option.splits if_splits)

lemma endProposal_Inr:
  assumes "endProposal s sender pid = Inr s'"
  shows "0 < pid \<and> pid \<le> currentProposalId s \<and> sender = admin s \<and> active (proposals s pid) \<and>
         s' = s\<lparr>proposals := (proposals s)(pid := (proposals s pid)\<lparr>active := False\<rparr>),
                 events := events s @ [ProposalEnded pid]\<rparr>"
  using assms
  by (auto simp: endProposal_def proposalExists_def onlyAdmin_def split: option.splits if_splits)

lemma transferAdmin_Inr:
  assumes "transferAdmin s sender a = Inr s'"
  shows "sender = admin s \<and> a \<noteq> 0 \<and> s' = s\<lparr>admin := a\<rparr>"
  using assms
  by (auto simp: transferAdmin_def onlyAdmin_def split: option.splits if_splits)

lemma exec_cases:
  assumes "exec chk s sender now c = Inr s'"
  obtains
    (create) ttl descr d where "c = CreateProposal ttl descr d"
      "createProposal s sender now ttl descr d = Inr s'"
  | (vote) pid v where "c = SubmitVote pid v" "submitVote s sender now pid v = Inr s'"
  | (reveal) pid where "c = RevealResults pid" "revealResults s sender now pid = Inr s'"
  | (callback) rid ct pf where "c = ProcessResults rid ct pf"
      "processResults chk s sender rid ct pf = Inr s'"
  | (finish) pid where "c = EndProposal pid" "endProposal s sender pid = Inr s'"
  | (transfer) a where "c = TransferAdmin a" "transferAdmin s sender a = Inr s'"
  using assms by (cases c) simp_all

subsection \<open>Reachable states\<close>

lemma reachable_transact: "reachable chk s \<Longrightarrow> reachable chk (transact chk s tx)"
  by (cases tx) (auto simp: transact_def split: sum.splits intro: reachable.called)

lemma reachable_run: "reachable chk s \<Longrightarrow> reachable chk (run chk s txs)"
  unfolding run_def by (induction txs arbitrary: s) (simp_all add: reachable_transact)

lemma reachable_run_constructor: "reachable chk (run chk (constructor d) txs)"
  by (rule reachable_run) (rule reachable.deployed)

lemma reachable_active_exists:
  "reachable chk s \<Longrightarrow>
     \<forall>pid. active (proposals s pid) \<longrightarrow> 0 < pid \<and> pid \<le> currentProposalId s"
proof (induction rule: reachable.induct)
  case (deployed deployer)
  show ?case by (simp add: constructor_def zero_Proposal_def)
next
  case (called s sender now c s')
  from called.hyps(2) show ?case
  proof (cases rule: exec_cases)
    case (create ttl descr d)
    note h = createProposal_Inr [OF create(2)]
    from h have lt: "currentProposalId s < currentProposalId s'"
      by (auto dest: checked_add_one_less)
    from h have cur: "currentProposalId s' = currentProposalId s + 1"
      by (auto dest: checked_add_Some)
    from h have p: "\<And>pid. pid \<noteq> currentProposalId s' \<Longrightarrow> proposals s' pid = proposals s pid"
      by (auto simp: cur)
    show ?thesis
    proof (intro allI impI)
      fix pid assume a: "active (proposals s' pid)"
      show "0 < pid \<and> pid \<le> currentProposalId s'"
      proof (cases "pid = currentProposalId s'")
        case True
        from lt have "0 < currentProposalId s'" by (simp add: word_greater_zero_iff) auto
        with True show ?thesis by simp
      next
        case False
        with a p called.IH have "0 < pid \<and> pid \<le> currentProposalId s" by simp
        with lt show ?thesis by auto
      qed
    qed
  next
    case (vote pid v)
    from submitVote_Inr [OF vote(2)] called.IH show ?thesis by (auto split: if_splits)
  next
    case (reveal pid)
    from revealResults_Inr [OF reveal(2)] called.IH show ?thesis by auto
  next
    case (callback rid ct pf)
    from processResults_Inr [OF callback(2)] called.IH show ?thesis by (auto split: if_splits)
  next
    case (finish pid)
    from endProposal_Inr [OF finish(2)] called.IH show ?thesis by (auto split: if_splits)
  next
    case (transfer a)
    from transferAdmin_Inr [OF transfer(2)] called.IH show ?thesis by auto
  qed
qed

subsection \<open>The scenarios, evaluated\<close>

lemma be_uint_zeros: "be_uint (replicate k 0 @ bs) = be_uint bs"
  unfolding be_uint_def by (induction k) simp_all

lemma decode_small_cleartexts:
  "abi_decode_uint32_pair (small_cleartexts y n) = Some (ucast y, ucast n)"
proof -
  have "unat y < 2 ^ LENGTH(8)" "unat n < 2 ^ LENGTH(8)"
    by (rule unsigned_less)+
  then have small: "unat y < 4294967296" "unat n < 4294967296" by simp_all
  have "be_uint [y] = unat y" "be_uint [n] = unat n"
    by (simp_all add: be_uint_def)
  then show ?thesis
    using small
    by (simp add: abi_decode_uint32_pair_def small_cleartexts_def be_uint_zeros)
qed

lemma one_proposal_eq:
  "one_proposal = \<lparr>admin = 1, currentProposalId = 1,
     proposals = (\<lambda>_. zero_Proposal)(1 :=
       \<lparr>title = ''Solar'', description = ''Install panels'', startTime = 100, endTime = 110,
        active = True, resultsRevealed = False, yesVotes = Euint32 0, noVotes = Euint32 0,
        totalVoters = 0, voters = []\<rparr>),
     votes = (\<lambda>_ _. zero_Vote),
     events = [ProposalCreated 1 ''Solar'' 100 110],
     decryptionRequests = []\<rparr>"
  by (simp add: one_proposal_def run_def transact_def constructor_def createProposal_def
      onlyAdmin_def checked_add_def FHE_asEuint32_def)

lemma one_vote_eq:
  "one_vote = \<lparr>admin = 1, currentProposalId = 1,
     proposals = (\<lambda>_. zero_Proposal)(1 :=
       \<lparr>title = ''Solar'', description = ''Install panels'', startTime = 100, endTime = 110,
        active = True, resultsRevealed = False, yesVotes = Euint32 1, noVotes = Euint32 0,
        totalVoters = 1, voters = [2]\<rparr>),
     votes = (\<lambda>_ _. zero_Vote)(1 := (\<lambda>_. zero_Vote)(2 :=
       \<lparr>encryptedVote = Euint8 1, hasVoted = True, timestamp = 101\<rparr>)),
     events = [ProposalCreated 1 ''Solar'' 100 110, VoteSubmitted 2 1],
     decryptionRequests = []\<rparr>"
  by (simp add: one_vote_def one_proposal_eq run_def transact_def submitVote_def
      proposalExists_def proposalActive_def checked_add_def FHE_asEuint32_def FHE_asEuint8_def
      FHE_add_def Let_def zero_Vote_def)

lemma awaiting_reveal_eq:
  "awaiting_reveal = one_vote\<lparr>decryptionRequests := [[Euint32 1, Euint32 0]]\<rparr>"
  by (simp add: awaiting_reveal_def one_vote_eq run_def transact_def revealResults_def
      proposalExists_def proposalEnded_def onlyAdmin_def FHE_requestDecryption_def Let_def)

lemma reveal_then_new_eq:
  "reveal_then_new = awaiting_reveal\<lparr>currentProposalId := 2,
     proposals := (proposals awaiting_reveal)(2 :=
       \<lparr>title = ''Wind'', description = ''Build turbines'', startTime = 112, endTime = 122,
        active = True, resultsRevealed = False, yesVotes = Euint32 0, noVotes = Euint32 0,
        totalVoters = 0, voters = []\<rparr>),
     events := events awaiting_reveal @ [ProposalCreated 2 ''Wind'' 112 122]\<rparr>"
  by (simp add: reveal_then_new_def awaiting_reveal_eq one_vote_eq run_def transact_def
      createProposal_def onlyAdmin_def checked_add_def FHE_asEuint32_def)

lemma three_votes_ended_eq:
  "three_votes_ended = \<lparr>admin = 1, currentProposalId = 1,
     proposals = (\<lambda>_. zero_Proposal)(1 :=
       \<lparr>title = ''Solar'', description = ''Install panels'', startTime = 100, endTime = 110,
        active = True, resultsRevealed = False, yesVotes = Euint32 3, noVotes = Euint32 0,
        totalVoters = 3, voters = [2, 3, 4]\<rparr>),
     votes = (\<lambda>_ _. zero_Vote)(1 := (\<lambda>_. zero_Vote)
       (2 := \<lparr>encryptedVote = Euint8 1, hasVoted = True, timestamp = 101\<rparr>,
        3 := \<lparr>encryptedVote = Euint8 1, hasVoted = True, timestamp = 102\<rparr>,
        4 := \<lparr>encryptedVote = Euint8 1, hasVoted = True, timestamp = 103\<rparr>)),
     events = [ProposalCreated 1 ''Solar'' 100 110, VoteSubmitted 2 1, VoteSubmitted 3 1,
               VoteSubmitted 4 1],
     decryptionRequests = [[Euint32 3, Euint32 0]]\<rparr>"
  by (simp add: three_votes_ended_def one_vote_eq run_def transact_def submitVote_def
      revealResults_def proposalExists_def proposalActive_def proposalEnded_def onlyAdmin_def
      checked_add_def FHE_asEuint32_def FHE_asEuint8_def FHE_add_def FHE_requestDecryption_def
      Let_def zero_Vote_def)

lemma revealed_one_eq:
  "revealed_one = awaiting_reveal\<lparr>
     proposals := (proposals awaiting_reveal)(1 :=
       (proposals awaiting_reveal 1)\<lparr>resultsRevealed := True, active := False\<rparr>),
     events := events awaiting_reveal @ [ResultsRevealed 1 1 0, ProposalEnded 1]\<rparr>"
  by (simp add: revealed_one_def run_def transact_def processResults_def accept_issued_def
      decode_small_cleartexts awaiting_reveal_eq one_vote_eq)

lemma revealed_other_eq:
  "revealed_other = awaiting_reveal\<lparr>
     proposals := (proposals awaiting_reveal)(1 :=
       (proposals awaiting_reveal 1)\<lparr>resultsRevealed := True, active := False\<rparr>),
     events := events awaiting_reveal @ [ResultsRevealed 1 0 1, ProposalEnded 1]\<rparr>"
  by (simp add: revealed_other_def run_def transact_def processResults_def accept_issued_def
      decode_small_cleartexts awaiting_reveal_eq one_vote_eq)

lemma second_request_eq:
  "second_request = one_vote\<lparr>decryptionRequests :=
     [[Euint32 1, Euint32 0], [Euint32 1, Euint32 0]]\<rparr>"
  by (simp add: second_request_def awaiting_reveal_eq one_vote_eq run_def transact_def
      revealResults_def proposalExists_def proposalEnded_def onlyAdmin_def
      FHE_requestDecryption_def Let_def)

lemma misrouted_eq:
  "misrouted = reveal_then_new\<lparr>
     proposals := (proposals reveal_then_new)(2 :=
       (proposals reveal_then_new 2)\<lparr>resultsRevealed := True, active := False\<rparr>),
     events := events reveal_then_new @ [ResultsRevealed 2 1 0, ProposalEnded 2]\<rparr>"
  by (simp add: misrouted_def run_def transact_def processResults_def accept_issued_def
      decode_small_cleartexts reveal_then_new_eq awaiting_reveal_eq one_vote_eq)

lemma one_no_vote_eq:
  "one_no_vote = \<lparr>admin = 1, currentProposalId = 1,
     proposals = (\<lambda>_. zero_Proposal)(1 :=
       \<lparr>title = ''Solar'', description = ''Install panels'', startTime = 100, endTime = 110,
        active = True, resultsRevealed = False, yesVotes = Euint32 0, noVotes = Euint32 1,
        totalVoters = 1, voters = [2]\<rparr>),
     votes = (\<lambda>_ _. zero_Vote)(1 := (\<lambda>_. zero_Vote)(2 :=
       \<lparr>encryptedVote = Euint8 0, hasVoted = True, timestamp = 101\<rparr>)),
     events = [ProposalCreated 1 ''Solar'' 100 110, VoteSubmitted 2 1],
     decryptionRequests = []\<rparr>"
  by (simp add: one_no_vote_def one_proposal_eq run_def transact_def submitVote_def
      proposalExists_def proposalActive_def checked_add_def FHE_asEuint32_def FHE_asEuint8_def
      FHE_add_def Let_def zero_Vote_def)

lemma mismatch_revealed_eq:
  "mismatch_revealed = three_votes_ended\<lparr>
     proposals := (proposals three_votes_ended)(1 :=
       (proposals three_votes_ended 1)\<lparr>resultsRevealed := True, active := False\<rparr>),
     events := events three_votes_ended @ [ResultsRevealed 1 3 1, ProposalEnded 1]\<rparr>"
  by (simp add: mismatch_revealed_def run_def transact_def processResults_def accept_issued_def
      decode_small_cleartexts three_votes_ended_eq)


lemma ended_early_eq:
  "ended_early = one_vote\<lparr>
     proposals := (proposals one_vote)(1 := (proposals one_vote 1)\<lparr>active := False\<rparr>),
     events := events one_vote @ [ProposalEnded 1]\<rparr>"
  by (simp add: ended_early_def one_vote_eq run_def transact_def endProposal_def
      proposalExists_def onlyAdmin_def)

lemma ended_after_deadline_eq:
  "ended_after_deadline = one_vote\<lparr>
     proposals := (proposals one_vote)(1 := (proposals one_vote 1)\<lparr>active := False\<rparr>),
     events := events one_vote @ [ProposalEnded 1]\<rparr>"
  by (simp add: ended_after_deadline_def one_vote_eq run_def transact_def endProposal_def
      proposalExists_def onlyAdmin_def)

lemma one_vote_run:
  "one_vote = run accept_issued (constructor 1)
     [(1, 100, CreateProposal ''Solar'' ''Install panels'' 10), (2, 101, SubmitVote 1 1)]"
  by (simp add: one_vote_def one_proposal_def run_def)

subsection \<open>Voter count\<close>

lemma voted_count_step:
  assumes inv: "\<forall>pid. card {a. hasVoted (votes s pid a)} = unat (totalVoters (proposals s pid)) \<and>
                  (currentProposalId s < pid \<longrightarrow> (\<forall>a. \<not> hasVoted (votes s pid a)))"
    and ex: "exec chk s sender now c = Inr s'"
  shows "\<forall>pid. card {a. hasVoted (votes s' pid a)} = unat (totalVoters (proposals s' pid)) \<and>
                  (currentProposalId s' < pid \<longrightarrow> (\<forall>a. \<not> hasVoted (votes s' pid a)))"
  using ex
proof (cases rule: exec_cases)
  case (create ttl descr d)
  note h = createProposal_Inr [OF create(2)]
  from h have lt: "currentProposalId s < currentProposalId s'"
    by (auto dest: checked_add_one_less)
  from h have cur: "currentProposalId s' = currentProposalId s + 1"
    by (auto dest: checked_add_Some)
  from h have v: "votes s' = votes s" by auto
  from h have p: "\<And>pid. pid \<noteq> currentProposalId s' \<Longrightarrow> proposals s' pid = proposals s pid"
    and p0: "totalVoters (proposals s' (currentProposalId s')) = 0"
    by (auto simp: cur)
  show ?thesis
  proof (intro allI conjI impI)
    fix pid
    show "card {a. hasVoted (votes s' pid a)} = unat (totalVoters (proposals s' pid))"
    proof (cases "pid = currentProposalId s'")
      case True
      with lt inv have "{a. hasVoted (votes s pid a)} = {}" by auto
      with True p0 v show ?thesis by simp
    next
      case False
      with p v inv show ?thesis by simp
    qed
  next
    fix pid a assume "currentProposalId s' < pid"
    with lt have "currentProposalId s < pid" by simp
    with inv v show "\<not> hasVoted (votes s' pid a)" by simp
  qed
next
  case (vote pid v)
  note h = submitVote_Inr [OF vote(2)]
  from h have cur: "currentProposalId s' = currentProposalId s" by auto
  from h have fresh: "\<not> hasVoted (votes s pid sender)" by simp
  from h have bound: "unat (totalVoters (proposals s pid)) + 1 < 2 ^ 32" by simp
  from h have tv: "totalVoters (proposals s' pid) = totalVoters (proposals s pid) + 1"
    by auto
  from h have other: "\<And>q. q \<noteq> pid \<Longrightarrow> votes s' q = votes s q \<and> proposals s' q = proposals s q"
    by auto
  from h have here: "{a. hasVoted (votes s' pid a)} = insert sender {a. hasVoted (votes s pid a)}"
    by auto
  have un: "unat (totalVoters (proposals s pid) + 1) = unat (totalVoters (proposals s pid)) + 1"
    using bound by (simp add: unat_add_lem [THEN iffD1])
  show ?thesis
  proof (intro allI conjI impI)
    fix q
    show "card {a. hasVoted (votes s' q a)} = unat (totalVoters (proposals s' q))"
    proof (cases "q = pid")
      case True
      have "card (insert sender {a. hasVoted (votes s pid a)}) = Suc (card {a. hasVoted (votes s pid a)})"
        using fresh by (intro card_insert_disjoint) auto
      with True here tv un inv show ?thesis by simp
    next
      case False
      with other inv show ?thesis by simp
    qed
  next
    fix q a assume q: "currentProposalId s' < q"
    with h cur have "q \<noteq> pid" by auto
    with other q cur inv show "\<not> hasVoted (votes s' q a)" by simp
  qed
next
  case (reveal pid)
  from revealResults_Inr [OF reveal(2)] inv show ?thesis by auto
next
  case (callback rid ct pf)
  from processResults_Inr [OF callback(2)] inv show ?thesis by auto
next
  case (finish pid)
  from endProposal_Inr [OF finish(2)] inv show ?thesis by auto
next
  case (transfer a)
  from transferAdmin_Inr [OF transfer(2)] inv show ?thesis by auto
qed

lemma reachable_voted_count:
  "reachable chk s \<Longrightarrow>
     \<forall>pid. card {a. hasVoted (votes s pid a)} = unat (totalVoters (proposals s pid)) \<and>
           (currentProposalId s < pid \<longrightarrow> (\<forall>a. \<not> hasVoted (votes s pid a)))"
proof (induction rule: reachable.induct)
  case (deployed deployer)
  show ?case by (simp add: constructor_def zero_Vote_def zero_Proposal_def)
next
  case (called s sender now c s')
  from voted_count_step [OF called.IH called.hyps(2)] show ?case .
qed

text \<open>
  Claim C6. After any sequence of transactions on a freshly deployed contract, accepted or
  reverted, and for every proposal id, \<^verbatim>\<open>totalVoters\<close> is the number of addresses whose
  vote record for that proposal has \<^verbatim>\<open>hasVoted = true\<close>.
\<close>

theorem totalVoters_counts_voted:
  "card {a. hasVoted (votes (run chk (constructor d) txs) pid a)} =
     unat (totalVoters (proposals (run chk (constructor d) txs) pid))"
  using reachable_voted_count [OF reachable_run_constructor] by blast

theorem totalVoters_counts_voted_witness:
  "card {a. hasVoted (votes one_vote 1 a)} = 1 \<and> totalVoters (proposals one_vote 1) = 1"
  using totalVoters_counts_voted [of accept_issued 1
      "[(1, 100, CreateProposal ''Solar'' ''Install panels'' 10), (2, 101, SubmitVote 1 1)]" 1]
  unfolding one_vote_run [symmetric] by (simp add: one_vote_eq)

subsection \<open>Encrypted tallies\<close>

lemma tally_step:
  assumes inv: "\<forall>pid. unat (plain32 (yesVotes (proposals s pid))) +
                  unat (plain32 (noVotes (proposals s pid))) = unat (totalVoters (proposals s pid))"
    and ex: "exec chk s sender now c = Inr s'"
  shows "\<forall>pid. unat (plain32 (yesVotes (proposals s' pid))) +
                  unat (plain32 (noVotes (proposals s' pid))) = unat (totalVoters (proposals s' pid))"
  using ex
proof (cases rule: exec_cases)
  case (create ttl descr d)
  from createProposal_Inr [OF create(2)] inv show ?thesis by auto
next
  case (vote pid v)
  note h = submitVote_Inr [OF vote(2)]
  let ?p = "proposals s pid"
  from h have bound: "unat (totalVoters ?p) + 1 < 2 ^ 32" by simp
  from inv have sum: "unat (plain32 (yesVotes ?p)) + unat (plain32 (noVotes ?p)) = unat (totalVoters ?p)"
    by simp
  have t: "unat (totalVoters ?p + 1) = unat (totalVoters ?p) + 1"
    using bound by (simp add: unat_add_lem [THEN iffD1])
  have y: "unat (plain32 (yesVotes ?p) + 1) = unat (plain32 (yesVotes ?p)) + 1"
    using bound sum by (simp add: unat_add_lem [THEN iffD1])
  have n: "unat (plain32 (noVotes ?p) + 1) = unat (plain32 (noVotes ?p)) + 1"
    using bound sum by (simp add: unat_add_lem [THEN iffD1])
  from h have other: "\<And>q. q \<noteq> pid \<Longrightarrow> proposals s' q = proposals s q" by auto
  from h have here: "proposals s' pid = ?p
      \<lparr>voters := voters ?p @ [sender], totalVoters := totalVoters ?p + 1,
       yesVotes := (if v = 1 then Euint32 (plain32 (yesVotes ?p) + 1) else yesVotes ?p),
       noVotes := (if v = 1 then noVotes ?p else Euint32 (plain32 (noVotes ?p) + 1))\<rparr>"
    by auto
  show ?thesis
  proof
    fix q
    show "unat (plain32 (yesVotes (proposals s' q))) + unat (plain32 (noVotes (proposals s' q))) =
          unat (totalVoters (proposals s' q))"
    proof (cases "q = pid")
      case True
      with here t y n sum show ?thesis by simp
    next
      case False
      with other inv show ?thesis by simp
    qed
  qed
next
  case (reveal pid)
  from revealResults_Inr [OF reveal(2)] inv show ?thesis by auto
next
  case (callback rid ct pf)
  from processResults_Inr [OF callback(2)] inv show ?thesis by auto
next
  case (finish pid)
  from endProposal_Inr [OF finish(2)] inv show ?thesis by auto
next
  case (transfer a)
  from transferAdmin_Inr [OF transfer(2)] inv show ?thesis by auto
qed

lemma reachable_tally:
  "reachable chk s \<Longrightarrow>
     \<forall>pid. unat (plain32 (yesVotes (proposals s pid))) +
           unat (plain32 (noVotes (proposals s pid))) = unat (totalVoters (proposals s pid))"
proof (induction rule: reachable.induct)
  case (deployed deployer)
  show ?case by (simp add: constructor_def zero_Proposal_def)
next
  case (called s sender now c s')
  from tally_step [OF called.IH called.hyps(2)] show ?case .
qed

text \<open>
  Claim C7. In every state reached by transactions from a deployment, and for every
  proposal, the plaintexts of \<^verbatim>\<open>yesVotes\<close> and \<^verbatim>\<open>noVotes\<close> add up to
  \<^verbatim>\<open>totalVoters\<close>. An accepted vote \<open>v\<close> adds \<open>v\<close> to the plaintext of the yes counter
  and its complement \<open>1 - v\<close> to the plaintext of the no counter, one in total, and adds one
  to \<^verbatim>\<open>totalVoters\<close>.
\<close>

theorem tallies_sum_to_totalVoters:
  "unat (plain32 (yesVotes (proposals (run chk (constructor d) txs) pid))) +
     unat (plain32 (noVotes (proposals (run chk (constructor d) txs) pid))) =
   unat (totalVoters (proposals (run chk (constructor d) txs) pid)) \<and>
   (submitVote s sender now pid v = Inr s' \<longrightarrow>
      plain32 (yesVotes (proposals s' pid)) = plain32 (yesVotes (proposals s pid)) + ucast v \<and>
      plain32 (noVotes (proposals s' pid)) = plain32 (noVotes (proposals s pid)) + (1 - ucast v) \<and>
      totalVoters (proposals s' pid) = totalVoters (proposals s pid) + 1)"
proof (intro conjI impI)
  show "unat (plain32 (yesVotes (proposals (run chk (constructor d) txs) pid))) +
     unat (plain32 (noVotes (proposals (run chk (constructor d) txs) pid))) =
   unat (totalVoters (proposals (run chk (constructor d) txs) pid))"
    using reachable_tally [OF reachable_run_constructor] by blast
next
  assume a: "submitVote s sender now pid v = Inr s'"
  note h = submitVote_Inr [OF a]
  from h have v: "v = 0 \<or> v = 1" by simp
  from h have here: "proposals s' pid = (proposals s pid)
      \<lparr>voters := voters (proposals s pid) @ [sender],
       totalVoters := totalVoters (proposals s pid) + 1,
       yesVotes := (if v = 1 then Euint32 (plain32 (yesVotes (proposals s pid)) + 1)
                    else yesVotes (proposals s pid)),
       noVotes := (if v = 1 then noVotes (proposals s pid)
                   else Euint32 (plain32 (noVotes (proposals s pid)) + 1))\<rparr>"
    by auto
  from v here show "plain32 (yesVotes (proposals s' pid)) = plain32 (yesVotes (proposals s pid)) + ucast v"
    by auto
  from v here show "plain32 (noVotes (proposals s' pid)) = plain32 (noVotes (proposals s pid)) + (1 - ucast v)"
    by auto
  from here show "totalVoters (proposals s' pid) = totalVoters (proposals s pid) + 1"
    by simp
qed

theorem tallies_sum_to_totalVoters_witness:
  "submitVote one_proposal 2 101 1 1 = Inr one_vote \<and>
   unat (plain32 (yesVotes (proposals one_vote 1))) +
     unat (plain32 (noVotes (proposals one_vote 1))) = unat (totalVoters (proposals one_vote 1)) \<and>
   plain32 (yesVotes (proposals one_vote 1)) = 1 \<and>
   plain32 (noVotes (proposals one_vote 1)) = 0 \<and>
   totalVoters (proposals one_vote 1) = 1"
proof -
  have acc: "submitVote one_proposal 2 101 1 1 = Inr one_vote"
    by (simp add: one_vote_eq one_proposal_eq submitVote_def proposalExists_def
        proposalActive_def checked_add_def FHE_asEuint32_def FHE_asEuint8_def FHE_add_def
        Let_def zero_Vote_def)
  from tallies_sum_to_totalVoters [of accept_issued 1
      "[(1, 100, CreateProposal ''Solar'' ''Install panels'' 10), (2, 101, SubmitVote 1 1)]"
      1 one_proposal 2 101 1 one_vote] acc
  show ?thesis unfolding one_vote_run [symmetric] by (simp add: one_proposal_eq)
qed

subsection \<open>Submitting a vote\<close>

text \<open>
  Claim C3. \<^verbatim>\<open>submitVote\<close> takes the vote as a plaintext \<^verbatim>\<open>uint8\<close> and reads it. On
  the proposal of \<open>one_proposal\<close>, voter 2 at time 101: the value 2 is rejected with
  "Vote must be 0 (no) or 1 (yes)" while 1 and 0 are accepted, the value 1 replaces the
  yes counter and leaves the no counter alone, and the value 0 does the opposite. Two
  submissions that differ only in the vote's value are told apart by the outcome of the call
  and by which counter was written.
\<close>

theorem submitVote_reads_plaintext_vote:
  "submitVote one_proposal 2 101 1 2 = Inl InvalidVote \<and>
   submitVote one_proposal 2 101 1 1 = Inr one_vote \<and>
   submitVote one_proposal 2 101 1 0 = Inr one_no_vote \<and>
   yesVotes (proposals one_vote 1) \<noteq> yesVotes (proposals one_proposal 1) \<and>
   noVotes (proposals one_vote 1) = noVotes (proposals one_proposal 1) \<and>
   yesVotes (proposals one_no_vote 1) = yesVotes (proposals one_proposal 1) \<and>
   noVotes (proposals one_no_vote 1) \<noteq> noVotes (proposals one_proposal 1)"
  by (simp add: one_proposal_eq one_vote_eq one_no_vote_eq submitVote_def proposalExists_def
      proposalActive_def checked_add_def FHE_asEuint32_def FHE_asEuint8_def FHE_add_def
      Let_def zero_Vote_def)

text \<open>
  Claim C8, as stated, fails on the error: in \<open>one_vote\<close> voter 2 has voted on proposal 1,
  whose deadline is 110. A second vote by voter 2 at time 111 is rejected with "Voting has
  ended", the check of the \<^verbatim>\<open>proposalActive\<close> modifier, which runs before the check
  of \<^verbatim>\<open>hasVoted\<close>.
\<close>

theorem second_vote_after_deadline:
  "hasVoted (votes one_vote 1 2) \<and>
   submitVote one_vote 2 111 1 1 = Inl VotingWindowClosed \<and>
   submitVote one_vote 2 111 1 1 \<noteq> Inl AlreadyVoted"
  by (simp add: one_vote_eq submitVote_def proposalExists_def proposalActive_def)

text \<open>
  Claim C8, amended. When the sender's vote record for a proposal already has
  \<^verbatim>\<open>hasVoted = true\<close>, \<^verbatim>\<open>submitVote\<close> rejects every further submission by that sender on
  that proposal and the transaction leaves the whole storage (vote records, tallies,
  \<^verbatim>\<open>totalVoters\<close>) as it was. The error is \<open>AlreadyVoted\<close> whenever the submission passes
  the checks the source makes before it: the proposal exists, is active, the time is in the
  voting window and the vote is 0 or 1. Otherwise it is the error of the first of those
  checks that fails.
\<close>

theorem second_vote_rejected:
  assumes "hasVoted (votes s pid sender)"
  shows "submitVote s sender now pid v =
           Inl (case proposalExists s pid of Some e \<Rightarrow> e
                | None \<Rightarrow> (case proposalActive s now pid of Some e \<Rightarrow> e
                   | None \<Rightarrow> if v = 0 \<or> v = 1 then AlreadyVoted else InvalidVote)) \<and>
         transact chk s (sender, now, SubmitVote pid v) = s \<and>
         (0 < pid \<and> pid \<le> currentProposalId s \<and> active (proposals s pid) \<and>
          startTime (proposals s pid) \<le> now \<and> now \<le> endTime (proposals s pid) \<and>
          (v = 0 \<or> v = 1) \<longrightarrow> submitVote s sender now pid v = Inl AlreadyVoted)"
proof -
  have rej: "submitVote s sender now pid v =
           Inl (case proposalExists s pid of Some e \<Rightarrow> e
                | None \<Rightarrow> (case proposalActive s now pid of Some e \<Rightarrow> e
                   | None \<Rightarrow> if v = 0 \<or> v = 1 then AlreadyVoted else InvalidVote))"
    using assms by (auto simp: submitVote_def split: option.splits)
  then have "transact chk s (sender, now, SubmitVote pid v) = s"
    by (simp add: transact_def)
  moreover have "0 < pid \<and> pid \<le> currentProposalId s \<and> active (proposals s pid) \<and>
          startTime (proposals s pid) \<le> now \<and> now \<le> endTime (proposals s pid) \<and>
          (v = 0 \<or> v = 1) \<longrightarrow> submitVote s sender now pid v = Inl AlreadyVoted"
    using assms by (auto simp: submitVote_def proposalExists_def proposalActive_def)
  ultimately show ?thesis using rej by blast
qed

theorem second_vote_rejected_witness:
  "hasVoted (votes one_vote 1 2) \<and>
   submitVote one_vote 2 102 1 0 = Inl AlreadyVoted \<and>
   transact accept_issued one_vote (2, 102, SubmitVote 1 0) = one_vote \<and>
   totalVoters (proposals one_vote 1) = 1 \<and>
   transact accept_issued one_vote (2, 111, SubmitVote 1 0) = one_vote"
proof -
  have h: "hasVoted (votes one_vote 1 2)" by (simp add: one_vote_eq)
  have g: "0 < (1::uint32) \<and> 1 \<le> currentProposalId one_vote \<and> active (proposals one_vote 1) \<and>
      startTime (proposals one_vote 1) \<le> 102 \<and> 102 \<le> endTime (proposals one_vote 1) \<and>
      ((0::uint8) = 0 \<or> (0::uint8) = 1)"
    by (simp add: one_vote_eq)
  have t: "totalVoters (proposals one_vote 1) = 1" by (simp add: one_vote_eq)
  from second_vote_rejected [OF h, of 102 0 accept_issued] g
  have a: "submitVote one_vote 2 102 1 0 = Inl AlreadyVoted \<and>
      transact accept_issued one_vote (2, 102, SubmitVote 1 0) = one_vote" by blast
  from second_vote_rejected [OF h, of 111 0 accept_issued]
  have b: "transact accept_issued one_vote (2, 111, SubmitVote 1 0) = one_vote" by blast
  from a b h t show ?thesis by blast
qed

subsection \<open>Ending a proposal\<close>

text \<open>
  Claim C9, as stated, fails: \<^verbatim>\<open>endProposal\<close> reads only the stored \<^verbatim>\<open>active\<close>
  flag, which the deadline does not clear. In \<open>one_vote\<close> proposal 1 has deadline 110; at
  time 111 voting on it is no longer active (\<^verbatim>\<open>isVotingActive\<close> answers false and a vote is
  rejected with "Voting has ended"), yet the admin's \<^verbatim>\<open>endProposal\<close> on it is accepted.
\<close>

theorem endProposal_after_deadline_accepted:
  "isVotingActive one_vote 111 1 = Inr False \<and>
   proposalActive one_vote 111 1 = Some VotingWindowClosed \<and>
   exec accept_issued one_vote 1 111 (EndProposal 1) = Inr ended_after_deadline \<and>
   \<not> active (proposals ended_after_deadline 1) \<and>
   events ended_after_deadline = events one_vote @ [ProposalEnded 1]"
  by (simp add: ended_after_deadline_eq one_vote_eq isVotingActive_def proposalActive_def
      endProposal_def proposalExists_def onlyAdmin_def)

text \<open>
  Claim C9, amended. \<^verbatim>\<open>endProposal\<close> succeeds exactly when the proposal exists, the
  caller is the admin and the proposal's stored \<^verbatim>\<open>active\<close> flag is set, at any block
  time, before or after the deadline; it then clears the flag. A call by anyone else is
  rejected and leaves the storage as it was; on a proposal of a reachable state whose flag
  is set the error is \<open>Unauthorized\<close> and the flag stays set. A call on a proposal whose
  \<^verbatim>\<open>active\<close> flag is clear fails, with "Proposal already ended" when the admin calls it
  on an existing proposal.
\<close>

theorem endProposal_admin_on_active_flag:
  "((\<exists>s'. exec chk s sender now (EndProposal pid) = Inr s') \<longleftrightarrow>
      0 < pid \<and> pid \<le> currentProposalId s \<and> sender = admin s \<and> active (proposals s pid)) \<and>
   (endProposal s sender pid = Inr s' \<longrightarrow> \<not> active (proposals s' pid)) \<and>
   (sender \<noteq> admin s \<longrightarrow>
      (\<exists>e. endProposal s sender pid = Inl e) \<and>
      transact chk s (sender, now, EndProposal pid) = s) \<and>
   (reachable chk s \<and> sender \<noteq> admin s \<and> active (proposals s pid) \<longrightarrow>
      endProposal s sender pid = Inl Unauthorized \<and>
      active (proposals (transact chk s (sender, now, EndProposal pid)) pid)) \<and>
   (\<not> active (proposals s pid) \<longrightarrow> (\<exists>e. endProposal s sender pid = Inl e)) \<and>
   (0 < pid \<and> pid \<le> currentProposalId s \<and> sender = admin s \<and> \<not> active (proposals s pid) \<longrightarrow>
      endProposal s sender pid = Inl AlreadyEnded)"
proof (intro conjI impI)
  show "(\<exists>s'. exec chk s sender now (EndProposal pid) = Inr s') \<longleftrightarrow>
      0 < pid \<and> pid \<le> currentProposalId s \<and> sender = admin s \<and> active (proposals s pid)"
    by (auto simp: endProposal_def proposalExists_def onlyAdmin_def)
next
  assume "endProposal s sender pid = Inr s'"
  from endProposal_Inr [OF this] show "\<not> active (proposals s' pid)" by auto
next
  assume na: "sender \<noteq> admin s"
  then show rej: "\<exists>e. endProposal s sender pid = Inl e"
    by (auto simp: endProposal_def proposalExists_def onlyAdmin_def)
  then show "transact chk s (sender, now, EndProposal pid) = s"
    by (auto simp: transact_def)
next
  assume a: "reachable chk s \<and> sender \<noteq> admin s \<and> active (proposals s pid)"
  with reachable_active_exists [of chk s] have ex: "0 < pid \<and> pid \<le> currentProposalId s"
    by blast
  with a show un: "endProposal s sender pid = Inl Unauthorized"
    by (simp add: endProposal_def proposalExists_def onlyAdmin_def)
  then have "transact chk s (sender, now, EndProposal pid) = s"
    by (simp add: transact_def)
  with a show "active (proposals (transact chk s (sender, now, EndProposal pid)) pid)"
    by simp
next
  assume "\<not> active (proposals s pid)"
  then show "\<exists>e. endProposal s sender pid = Inl e"
    by (auto simp: endProposal_def proposalExists_def onlyAdmin_def)
next
  assume "0 < pid \<and> pid \<le> currentProposalId s \<and> sender = admin s \<and> \<not> active (proposals s pid)"
  then show "endProposal s sender pid = Inl AlreadyEnded"
    by (simp add: endProposal_def proposalExists_def onlyAdmin_def)
qed

theorem endProposal_admin_on_active_flag_witness:
  "startTime (proposals one_vote 1) \<le> 105 \<and> 105 \<le> endTime (proposals one_vote 1) \<and>
   (\<exists>s'. exec accept_issued one_vote 1 105 (EndProposal 1) = Inr s') \<and>
   endTime (proposals one_vote 1) < 111 \<and>
   (\<exists>s'. exec accept_issued one_vote 1 111 (EndProposal 1) = Inr s') \<and>
   endProposal one_vote 1 1 = Inr ended_early \<and> \<not> active (proposals ended_early 1) \<and>
   reachable accept_issued one_vote \<and> 2 \<noteq> admin one_vote \<and> active (proposals one_vote 1) \<and>
   endProposal one_vote 2 1 = Inl Unauthorized \<and>
   transact accept_issued one_vote (2, 105, EndProposal 1) = one_vote \<and>
   0 < (1::uint32) \<and> 1 \<le> currentProposalId ended_early \<and> 1 = admin ended_early \<and>
   endProposal ended_early 1 1 = Inl AlreadyEnded"
proof -
  have ok: "0 < (1::uint32) \<and> 1 \<le> currentProposalId one_vote \<and> 1 = admin one_vote \<and>
      active (proposals one_vote 1)"
    by (simp add: one_vote_eq)
  have win: "startTime (proposals one_vote 1) \<le> 105 \<and> 105 \<le> endTime (proposals one_vote 1) \<and>
      endTime (proposals one_vote 1) < 111"
    by (simp add: one_vote_eq)
  have other: "2 \<noteq> admin one_vote" by (simp add: one_vote_eq)
  have reach: "reachable accept_issued one_vote"
    unfolding one_vote_run by (rule reachable_run_constructor)
  have acc: "endProposal one_vote 1 1 = Inr ended_early"
    by (simp add: ended_early_eq one_vote_eq endProposal_def proposalExists_def onlyAdmin_def)
  have fin: "0 < (1::uint32) \<and> 1 \<le> currentProposalId ended_early \<and> 1 = admin ended_early \<and>
      \<not> active (proposals ended_early 1)"
    by (simp add: ended_early_eq one_vote_eq)
  from endProposal_admin_on_active_flag [of accept_issued one_vote 1 105 1 ended_early] ok acc
  have a: "(\<exists>s'. exec accept_issued one_vote 1 105 (EndProposal 1) = Inr s') \<and>
      \<not> active (proposals ended_early 1)" by blast
  from endProposal_admin_on_active_flag [of accept_issued one_vote 1 111 1 ended_early] ok
  have b: "\<exists>s'. exec accept_issued one_vote 1 111 (EndProposal 1) = Inr s'" by blast
  from endProposal_admin_on_active_flag [of accept_issued one_vote 2 105 1 one_vote]
    ok other reach
  have c: "endProposal one_vote 2 1 = Inl Unauthorized \<and>
      transact accept_issued one_vote (2, 105, EndProposal 1) = one_vote" by blast
  from endProposal_admin_on_active_flag [of accept_issued ended_early 1 112 1 ended_early] fin
  have d: "endProposal ended_early 1 1 = Inl AlreadyEnded" by blast
  from a b c d ok win other reach acc fin show ?thesis by blast
qed

subsection \<open>Requesting the reveal\<close>

text \<open>
  Claim C4. A second call of \<^verbatim>\<open>revealResults\<close> for the same proposal is not stopped
  while the first request is outstanding: the only repeat guard is
  \<^verbatim>\<open>require(!resultsRevealed)\<close>, and that flag is set by the callback alone. On
  \<open>one_vote\<close>, after the deadline, the admin calls \<^verbatim>\<open>revealResults\<close> for proposal 1 at
  time 111 and again at time 112; both calls are accepted and two decryption requests for
  the counters of proposal 1 are outstanding. Once the callback has set the flag, in
  \<open>revealed_one\<close>, a further call is rejected with "Results already revealed".
\<close>

theorem second_revealResults_accepted:
  "revealResults one_vote 1 111 1 = Inr awaiting_reveal \<and>
   revealResults awaiting_reveal 1 112 1 = Inr second_request \<and>
   decryptionRequests second_request = [[Euint32 1, Euint32 0], [Euint32 1, Euint32 0]] \<and>
   \<not> resultsRevealed (proposals second_request 1) \<and>
   revealResults revealed_one 1 113 1 = Inl AlreadyRevealed"
  by (simp add: second_request_eq revealed_one_eq awaiting_reveal_eq one_vote_eq
      revealResults_def proposalExists_def proposalEnded_def onlyAdmin_def
      FHE_requestDecryption_def Let_def)

subsection \<open>The decryption callback\<close>

text \<open>
  Claim C1. The callback is not resolved through a stored request: \<^verbatim>\<open>processResults\<close>
  takes \<^verbatim>\<open>currentProposalId\<close> as the proposal. In \<open>awaiting_reveal\<close> request 0 was
  issued for the counters of proposal 1, and its callback marks proposal 1. In
  \<open>reveal_then_new\<close> the admin has created proposal 2 after that request; the same callback
  for request 0 now marks proposal 2 as revealed and inactive while its voting window is
  open, and proposal 1 stays unrevealed.
\<close>

theorem callback_resolved_to_latest_proposal:
  "decryptionRequests reveal_then_new =
     [[yesVotes (proposals reveal_then_new 1), noVotes (proposals reveal_then_new 1)]] \<and>
   processResults accept_issued awaiting_reveal 9 0 (small_cleartexts 1 0) [] =
     Inr revealed_one \<and>
   resultsRevealed (proposals revealed_one 1) \<and>
   processResults accept_issued reveal_then_new 9 0 (small_cleartexts 1 0) [] =
     Inr misrouted \<and>
   \<not> resultsRevealed (proposals misrouted 1) \<and> active (proposals misrouted 1) \<and>
   resultsRevealed (proposals misrouted 2) \<and> \<not> active (proposals misrouted 2) \<and>
   113 \<le> endTime (proposals reveal_then_new 2) \<and>
   events misrouted = events reveal_then_new @ [ResultsRevealed 2 1 0, ProposalEnded 2]"
  by (simp add: processResults_def accept_issued_def decode_small_cleartexts
      misrouted_eq revealed_one_eq reveal_then_new_eq awaiting_reveal_eq one_vote_eq)

text \<open>
  Claim C2, as stated, fails: in \<open>three_votes_ended\<close> proposal 1 has three voters and a
  reveal was requested. The callback for that request with cleartexts decoding to
  \<open>(3, 1)\<close>, whose sum is 4, is accepted and sets \<^verbatim>\<open>resultsRevealed\<close> on the proposal.
\<close>

theorem mismatched_tally_is_revealed:
  "totalVoters (proposals three_votes_ended 1) = 3 \<and>
   abi_decode_uint32_pair (small_cleartexts 3 1) = Some (3, 1) \<and>
   \<not> resultsRevealed (proposals three_votes_ended 1) \<and>
   processResults accept_issued three_votes_ended 9 0 (small_cleartexts 3 1) [] =
     Inr mismatch_revealed \<and>
   resultsRevealed (proposals mismatch_revealed 1) \<and>
   events mismatch_revealed =
     events three_votes_ended @ [ResultsRevealed 1 3 1, ProposalEnded 1]"
  by (simp add: processResults_def accept_issued_def decode_small_cleartexts
      mismatch_revealed_eq three_votes_ended_eq)

text \<open>
  Claim C2, amended. For every callback that passes \<^verbatim>\<open>FHE.checkSignatures\<close> and whose
  cleartexts decode to two \<^verbatim>\<open>uint32\<close> values, the handler makes no comparison of their sum
  with \<^verbatim>\<open>totalVoters\<close>: whatever the values, the call succeeds, sets
  \<^verbatim>\<open>resultsRevealed\<close> on the proposal it resolves to and changes no \<^verbatim>\<open>totalVoters\<close>.
  The callback is rejected only when the signature check fails or the cleartexts do not
  decode.
\<close>

theorem processResults_no_cross_check:
  "(chk (decryptionRequests s) rid ct pf \<and> abi_decode_uint32_pair ct = Some (y, n) \<longrightarrow>
      (\<exists>s'. processResults chk s sender rid ct pf = Inr s' \<and>
            resultsRevealed (proposals s' (currentProposalId s)) \<and>
            (\<forall>pid. totalVoters (proposals s' pid) = totalVoters (proposals s pid)))) \<and>
   (processResults chk s sender rid ct pf = Inl e \<longrightarrow>
      \<not> chk (decryptionRequests s) rid ct pf \<or> abi_decode_uint32_pair ct = None)"
proof (intro conjI impI)
  assume "chk (decryptionRequests s) rid ct pf \<and> abi_decode_uint32_pair ct = Some (y, n)"
  then have "processResults chk s sender rid ct pf =
      Inr (s\<lparr>proposals := (proposals s)(currentProposalId s :=
                (proposals s (currentProposalId s))\<lparr>resultsRevealed := True, active := False\<rparr>),
             events := events s @ [ResultsRevealed (currentProposalId s) y n,
                                   ProposalEnded (currentProposalId s)]\<rparr>)"
    by (simp add: processResults_def Let_def)
  then show "\<exists>s'. processResults chk s sender rid ct pf = Inr s' \<and>
            resultsRevealed (proposals s' (currentProposalId s)) \<and>
            (\<forall>pid. totalVoters (proposals s' pid) = totalVoters (proposals s pid))"
    by simp
next
  assume "processResults chk s sender rid ct pf = Inl e"
  then show "\<not> chk (decryptionRequests s) rid ct pf \<or> abi_decode_uint32_pair ct = None"
    by (cases "abi_decode_uint32_pair ct")
      (auto simp: processResults_def Let_def split: if_splits)
qed

theorem processResults_no_cross_check_witness:
  "accept_issued (decryptionRequests three_votes_ended) 0 (small_cleartexts 3 1) [] \<and>
   abi_decode_uint32_pair (small_cleartexts 3 1) = Some (3, 1) \<and>
   unat (3::uint32) + unat (1::uint32) \<noteq> unat (totalVoters (proposals three_votes_ended 1)) \<and>
   (\<exists>s'. processResults accept_issued three_votes_ended 9 0 (small_cleartexts 3 1) [] = Inr s' \<and>
         resultsRevealed (proposals s' 1) \<and> totalVoters (proposals s' 1) = 3) \<and>
   processResults accept_issued three_votes_ended 9 1 (small_cleartexts 3 0) [] =
     Inl InvalidSignatures \<and>
   \<not> accept_issued (decryptionRequests three_votes_ended) 1 (small_cleartexts 3 0) []"
proof -
  have ok: "accept_issued (decryptionRequests three_votes_ended) 0 (small_cleartexts 3 1) []"
    by (simp add: accept_issued_def three_votes_ended_eq)
  have dec: "abi_decode_uint32_pair (small_cleartexts 3 1) = Some (3, 1)"
    by (simp add: decode_small_cleartexts)
  have cur: "currentProposalId three_votes_ended = 1" "totalVoters (proposals three_votes_ended 1) = 3"
    by (simp_all add: three_votes_ended_eq)
  have rej: "processResults accept_issued three_votes_ended 9 1 (small_cleartexts 3 0) [] =
     Inl InvalidSignatures"
    by (simp add: processResults_def accept_issued_def three_votes_ended_eq)
  have dec0: "abi_decode_uint32_pair (small_cleartexts 3 0) \<noteq> None"
    by (simp add: decode_small_cleartexts)
  from processResults_no_cross_check
    [of accept_issued three_votes_ended 0 "small_cleartexts 3 1" "[]" 3 1 9 InvalidSignatures]
    ok dec
  obtain s' where
    "processResults accept_issued three_votes_ended 9 0 (small_cleartexts 3 1) [] = Inr s'"
    "resultsRevealed (proposals s' (currentProposalId three_votes_ended))"
    "\<forall>pid. totalVoters (proposals s' pid) = totalVoters (proposals three_votes_ended pid)"
    by blast
  then have a: "\<exists>s'. processResults accept_issued three_votes_ended 9 0 (small_cleartexts 3 1) [] = Inr s' \<and>
         resultsRevealed (proposals s' 1) \<and> totalVoters (proposals s' 1) = 3"
    by (simp add: cur)
  from processResults_no_cross_check
    [of accept_issued three_votes_ended 1 "small_cleartexts 3 0" "[]" 3 0 9 InvalidSignatures]
    rej dec0
  have b: "\<not> accept_issued (decryptionRequests three_votes_ended) 1 (small_cleartexts 3 0) []"
    by blast
  from a b ok dec rej cur show ?thesis by simp
qed

text \<open>
  Claim C5. The callback does not store the decrypted counts: the proposal record has no
  field for them and \<^verbatim>\<open>getProposalInfo\<close> returns none. From \<open>awaiting_reveal\<close>, the
  callback with cleartexts \<open>(1, 0)\<close> and the callback with cleartexts \<open>(0, 1)\<close> both mark
  proposal 1 revealed and leave the same proposal records and the same answer of
  \<^verbatim>\<open>getProposalInfo\<close>; the counts appear in the \<^verbatim>\<open>ResultsRevealed\<close> event only.
\<close>

theorem revealed_counts_not_stored:
  "processResults accept_issued awaiting_reveal 9 0 (small_cleartexts 1 0) [] =
     Inr revealed_one \<and>
   processResults accept_issued awaiting_reveal 9 0 (small_cleartexts 0 1) [] =
     Inr revealed_other \<and>
   resultsRevealed (proposals revealed_one 1) \<and>
   proposals revealed_one = proposals revealed_other \<and>
   getProposalInfo revealed_one 1 = getProposalInfo revealed_other 1 \<and>
   getProposalInfo revealed_one 1 =
     Inr (''Solar'', ''Install panels'', 100, 110, False, True, 1) \<and>
   events revealed_one = events awaiting_reveal @ [ResultsRevealed 1 1 0, ProposalEnded 1] \<and>
   events revealed_other = events awaiting_reveal @ [ResultsRevealed 1 0 1, ProposalEnded 1]"
  by (simp add: processResults_def accept_issued_def decode_small_cleartexts
      getProposalInfo_def proposalExists_def revealed_one_eq revealed_other_eq
      awaiting_reveal_eq one_vote_eq)

text \<open>
  Claim C10. \<^verbatim>\<open>processResults\<close> does not look at its caller: the result is the same for
  every sender. It succeeds exactly when \<^verbatim>\<open>FHE.checkSignatures\<close> accepts and the
  cleartexts decode, whatever the flags and the voting window of any proposal, and every
  successful call sets \<^verbatim>\<open>resultsRevealed = true\<close> and \<^verbatim>\<open>active = false\<close> on the proposal
  whose id is \<^verbatim>\<open>currentProposalId\<close>, the highest id in use.
\<close>

theorem processResults_unguarded:
  "processResults chk s sender rid ct pf = processResults chk s sender' rid ct pf \<and>
   ((\<exists>s'. processResults chk s sender rid ct pf = Inr s') \<longleftrightarrow>
      chk (decryptionRequests s) rid ct pf \<and> abi_decode_uint32_pair ct \<noteq> None) \<and>
   (processResults chk s sender rid ct pf = Inr s' \<longrightarrow>
      resultsRevealed (proposals s' (currentProposalId s)) \<and>
      \<not> active (proposals s' (currentProposalId s)) \<and>
      currentProposalId s' = currentProposalId s \<and>
      (\<forall>pid. pid \<noteq> currentProposalId s \<longrightarrow> proposals s' pid = proposals s pid))"
proof (intro conjI impI)
  show "processResults chk s sender rid ct pf = processResults chk s sender' rid ct pf"
    by (simp add: processResults_def)
  show "(\<exists>s'. processResults chk s sender rid ct pf = Inr s') \<longleftrightarrow>
      chk (decryptionRequests s) rid ct pf \<and> abi_decode_uint32_pair ct \<noteq> None"
    by (auto simp: processResults_def Let_def split: option.splits)
next
  assume "processResults chk s sender rid ct pf = Inr s'"
  note h = processResults_Inr [OF this]
  from h show "resultsRevealed (proposals s' (currentProposalId s))"
    "\<not> active (proposals s' (currentProposalId s))"
    "currentProposalId s' = currentProposalId s"
    "\<forall>pid. pid \<noteq> currentProposalId s \<longrightarrow> proposals s' pid = proposals s pid"
    by auto
qed

theorem processResults_unguarded_witness:
  "active (proposals reveal_then_new 2) \<and> \<not> resultsRevealed (proposals reveal_then_new 2) \<and>
   startTime (proposals reveal_then_new 2) \<le> 113 \<and> 113 \<le> endTime (proposals reveal_then_new 2) \<and>
   9 \<noteq> admin reveal_then_new \<and>
   (\<exists>s'. processResults accept_issued reveal_then_new 9 0 (small_cleartexts 1 0) [] = Inr s' \<and>
         resultsRevealed (proposals s' 2) \<and> \<not> active (proposals s' 2) \<and>
         proposals s' 1 = proposals reveal_then_new 1)"
proof -
  have ok: "accept_issued (decryptionRequests reveal_then_new) 0 (small_cleartexts 1 0) [] \<and>
      abi_decode_uint32_pair (small_cleartexts 1 0) \<noteq> None"
    by (simp add: accept_issued_def decode_small_cleartexts reveal_then_new_eq
        awaiting_reveal_eq)
  have st: "currentProposalId reveal_then_new = 2" "active (proposals reveal_then_new 2)"
    "\<not> resultsRevealed (proposals reveal_then_new 2)"
    "startTime (proposals reveal_then_new 2) \<le> 113" "113 \<le> endTime (proposals reveal_then_new 2)"
    "9 \<noteq> admin reveal_then_new"
    by (simp_all add: reveal_then_new_eq awaiting_reveal_eq one_vote_eq)
  from processResults_unguarded
    [of accept_issued reveal_then_new 9 0 "small_cleartexts 1 0" "[]" 9] ok
  obtain s' where s': "processResults accept_issued reveal_then_new 9 0 (small_cleartexts 1 0) [] = Inr s'"
    by blast
  from processResults_unguarded
    [of accept_issued reveal_then_new 9 0 "small_cleartexts 1 0" "[]" 9 s'] s' st(1)
  have "resultsRevealed (proposals s' 2) \<and> \<not> active (proposals s' 2) \<and>
      proposals s' 1 = proposals reveal_then_new 1" by simp
  with s' st show ?thesis by blast
qed

end
